theory Spec2Isabelle
  imports Complex_Main
begin

section \<open>The Abi7 grid: data model\<close>

text \<open>
  A shallow embedding of the masonry grid engine (classes \<open>abi7_grid_item\<close> and
  \<open>abi7_grid_custom\<close>). Pixel quantities are integers; the horizontal offset
  \<open>self.left\<close> is half of an integer and therefore rational. Writes to the DOM (styles,
  classes, scroll offset) are not part of the state; what the code reads from the DOM
  (\<open>container.clientWidth\<close>, \<open>el.clientHeight\<close>, the views that intersect the viewport)
  is a field of the grid. The views \<open>self.items\<close> are a list, and a view is named by its
  position in that list; \<open>self.buffer\<close> is a list of such positions.
\<close>

datatype grid_state =
  ABI7_GRID_STATE_NORMAL | ABI7_GRID_STATE_BUILD | ABI7_GRID_STATE_DISABLED | ABI7_GRID_STATE_HIDDEN

text \<open>A data record with its two optional layout hints; \<open>payload\<close> stands for the rest.\<close>

record jsobject =
  abi7height :: "int option"
  abi7aspectRatio :: "rat option"
  payload :: nat

text \<open>JavaScript values as far as the public operations tell them apart. An array is a
  reference into the store of arrays (\<open>heap\<close> below).\<close>

datatype jsval =
  JUndefined | JNull | JBool bool | JNum int | JStr string | JObj jsobject | JArr nat | JFun

fun typeof :: "jsval \<Rightarrow> string" where
  "typeof JUndefined = ''undefined''"
| "typeof JNull = ''object''"
| "typeof (JBool b) = ''boolean''"
| "typeof (JNum n) = ''number''"
| "typeof (JStr s) = ''string''"
| "typeof (JObj r) = ''object''"
| "typeof (JArr a) = ''object''"
| "typeof JFun = ''function''"

fun isArray :: "jsval \<Rightarrow> bool" where
  "isArray (JArr a) = True"
| "isArray v = False"

text \<open>What the code throws: a \<open>TypeError\<close> of the engine (a property of \<open>undefined\<close> or
  \<open>null\<close>, a call of a non-function), and the strings \<open>'Data parameter must be an object'\<close>,
  \<open>'Unexpected data format'\<close> and \<open>'Please define the function "funcItemLoad"'\<close>.
  \<open>HeightUndefined\<close> is not thrown by the code: it marks the point where a layout pass goes on
  with \<open>NaN\<close> (see \<open>resolveHeight\<close>).\<close>

datatype exn =
  TypeError | DataParameterMustBeObject | UnexpectedDataFormat | FuncItemLoadUndefined
| HeightUndefined

datatype completion = Return jsval | Throw exn

text \<open>What the data source callback hands back: an array, a thenable (resolving to an
  array, or never), or anything else.\<close>

datatype fetch_result = FetchArray "jsval list" | FetchPromise "jsval list option" | FetchOther

datatype event_name =
  onSizeCalc | onDataLoadStart | onDataLoadEnd | onReady | onItemDelete | onItemInsert | onResize

datatype notification =
  SizeCalc nat int int int
| DataLoadStart
| DataLoadEnd "jsval list"
| Ready
| ItemDelete "jsval list" int
| ItemInsert jsval
| Resize
| Fdone
| FetchCall nat int

record item_geometry =
  geo_x :: rat
  geo_y :: int
  geo_column :: nat
  geo_width :: int

record abi7_config =
  cfg_itemsCount :: int
  cfg_dataBlockSize :: int
  padding_top :: int
  padding_left :: int
  padding_right :: int
  padding_bottom :: int
  space_cols :: int
  space_rows :: int
  items_aspectRatio :: "rat option"
  items_height :: "int option"
  items_minWidth :: int
  items_maxWidth :: int
  animation_enable :: bool
  animation_duration :: nat
  maxColumns :: int
  funcLoadData :: "(nat \<Rightarrow> int \<Rightarrow> fetch_result) option"
  funcItemLoad :: bool
  funcItemCalc :: "(item_geometry \<Rightarrow> jsval \<Rightarrow> int) option"
  events :: "event_name \<Rightarrow> bool"

text \<open>The constructor's \<open>self.defaults\<close>.\<close>

definition defaults :: abi7_config where
  "defaults = \<lparr> cfg_itemsCount = 0, cfg_dataBlockSize = 0,
     padding_top = 0, padding_left = 0, padding_right = 0, padding_bottom = 0,
     space_cols = 5, space_rows = 5,
     items_aspectRatio = None, items_height = None,
     items_minWidth = 150, items_maxWidth = 250,
     animation_enable = True, animation_duration = 400,
     maxColumns = 3,
     funcLoadData = None, funcItemLoad = False, funcItemCalc = None,
     events = (\<lambda>e. False) \<rparr>"

record layout_entry =
  left :: rat
  top' :: int
  height :: int
  bottom :: int
  column :: nat

record abi7_grid_item =
  index :: int
  loadIndex :: nat
  item_x :: rat
  item_y :: int
  item_column :: nat
  valWidth :: int
  valHeight :: int

record abi7_grid =
  config :: abi7_config
  clientWidth :: int
  clientHeight :: "jsval \<Rightarrow> int"
  gridState :: grid_state
  ready :: bool
  visible :: bool
  inScroll :: bool
  screen_all :: "nat list"
  heap :: "nat \<Rightarrow> jsval list"
  next_ref :: nat
  storage_cache :: nat
  storage_items :: "layout_entry option list"
  items :: "abi7_grid_item list"
  buffer :: "nat list"
  cursor_pos :: nat
  cursor_begin :: nat
  cursor_end :: nat
  bof :: bool
  eof :: bool
  eof_data :: bool
  grid_left :: rat
  column_count :: nat
  item_width :: int
  grid_width :: int
  calc_width :: int
  item_aspectRatio :: "rat option"
  item_height :: "int option"
  itemsCount :: int
  dataBlockSize :: int
  notifications :: "notification list"

text \<open>\<open>self.storage.cache\<close>: the array the reference points to.\<close>

definition cache :: "abi7_grid \<Rightarrow> jsval list" where
  "cache g = heap g (storage_cache g)"

text \<open>A handler is called when \<open>typeof self.events.<name> === 'function'\<close>.\<close>

definition emit :: "event_name \<Rightarrow> notification \<Rightarrow> abi7_grid \<Rightarrow> abi7_grid" where
  "emit e n g = (if events (config g) e then g\<lparr>notifications := notifications g @ [n]\<rparr> else g)"

text \<open>\<open>Math.round\<close>: the nearest integer, halves upwards.\<close>

definition js_round :: "rat \<Rightarrow> int" where
  "js_round q = \<lfloor>q + 1 / 2\<rfloor>"

section \<open>Geometry: initSizingParams\<close>

text \<open>The inner loop: grow \<open>item_width\<close> from \<open>minWidth\<close> while the row stays strictly
  narrower than the container. The result is \<open>(item_width, calc_width)\<close>.\<close>

function initSizingParams_width :: "abi7_config \<Rightarrow> int \<Rightarrow> nat \<Rightarrow> int \<Rightarrow> int \<Rightarrow> int \<times> int" where
  "initSizingParams_width cfg width cc iw calc =
     (if iw < items_maxWidth cfg then
        (let calc' = (iw + 1) * int cc + space_cols cfg * (int cc - 1) in
         if calc' \<ge> width then (iw, calc')
         else initSizingParams_width cfg width cc (iw + 1) calc')
      else (iw, calc))"
  by pat_completeness auto
termination
  by (relation "measure (\<lambda>(cfg, width, cc, iw, calc). nat (items_maxWidth cfg - iw))") auto

text \<open>The outer loop: lower \<open>column_count\<close> until \<open>minWidth\<close> columns fit. The result is
  \<open>(column_count, item_width, calc_width)\<close>.\<close>

function initSizingParams_cols :: "abi7_config \<Rightarrow> int \<Rightarrow> nat \<Rightarrow> int \<Rightarrow> int \<Rightarrow> nat \<times> int \<times> int" where
  "initSizingParams_cols cfg width cc iw calc =
     (if cc > 1 then
        (let calc' = items_minWidth cfg * int cc + space_cols cfg * (int cc - 1) in
         if calc' \<le> width then
           (case initSizingParams_width cfg width cc (items_minWidth cfg) calc' of
              (iw', calc'') \<Rightarrow> (cc, iw', calc''))
         else initSizingParams_cols cfg width (cc - 1) iw calc')
      else (cc, iw, calc))"
  by pat_completeness auto
termination
  by (relation "measure (\<lambda>(cfg, width, cc, iw, calc). cc)") auto

definition initSizingParams :: "abi7_grid \<Rightarrow> abi7_grid" where
  "initSizingParams g =
     (let cfg = config g;
          width_full = clientWidth g;
          width = width_full - (padding_left cfg + padding_right cfg);
          item_width0 = min width (items_maxWidth cfg);
          column_count0 = (if maxColumns cfg > 0 then nat (maxColumns cfg) else 16)
      in case initSizingParams_cols cfg width column_count0 item_width0 0 of
        (cc, iw, calc) \<Rightarrow>
          (let ar = (case items_aspectRatio cfg of
                       Some r \<Rightarrow> if r > 0 then Some r else None
                     | None \<Rightarrow> None);
               ih = (case ar of
                       Some r \<Rightarrow> Some (js_round (of_int iw / r))
                     | None \<Rightarrow>
                        (case items_height cfg of
                           Some h \<Rightarrow> if h > 0 then Some h else None
                         | None \<Rightarrow> None))
           in emit onSizeCalc (SizeCalc cc calc width_full iw)
               (g\<lparr> grid_left :=
                     max (of_int (padding_left cfg))
                       (of_int (width_full - ((space_cols cfg + iw) * int cc - space_cols cfg)) / 2),
                   column_count := cc,
                   item_width := iw,
                   grid_width := width_full,
                   calc_width := calc,
                   item_aspectRatio := ar,
                   item_height := ih,
                   itemsCount :=
                     (if cfg_itemsCount cfg \<noteq> 0 then cfg_itemsCount cfg else max 20 (int cc * 20)),
                   dataBlockSize :=
                     (if cfg_dataBlockSize cfg \<noteq> 0 then cfg_dataBlockSize cfg
                      else max 100 (int cc * 40)) \<rparr>)))"

section \<open>The state machine\<close>

definition state :: "abi7_grid \<Rightarrow> grid_state \<Rightarrow> abi7_grid" where
  "state g v = g\<lparr>gridState := v\<rparr>"

text \<open>\<open>stateIsNormal(options)\<close> with its three switches, which default to true.\<close>

definition stateIsNormalWith :: "abi7_grid \<Rightarrow> bool \<Rightarrow> bool \<Rightarrow> bool \<Rightarrow> bool" where
  "stateIsNormalWith g checkVisible checkScroll checkReady =
     (let ok = ((if checkReady then ready g else True) \<and>
                (if checkVisible then visible g else True) \<and>
                (if checkScroll then \<not> inScroll g else True))
      in gridState g = ABI7_GRID_STATE_NORMAL \<and> ok)"

definition stateIsNormal :: "abi7_grid \<Rightarrow> bool" where
  "stateIsNormal g = stateIsNormalWith g True True True"

definition setBuildState :: "abi7_grid \<Rightarrow> bool \<Rightarrow> abi7_grid" where
  "setBuildState g v = state g (if v then ABI7_GRID_STATE_BUILD else ABI7_GRID_STATE_NORMAL)"

section \<open>Callbacks and timers\<close>

text \<open>
  A completion callback is a state transformer that may throw. The model is the settled
  one: a timer or a resolved promise runs its callback when the code that scheduled it has
  finished, and in every function below the scheduling call is the last statement, so the
  callback is run in place. \<open>animation\<close> tells when its callback runs: at once, after
  \<open>duration + 50\<close> ms, or never (animations disabled).
\<close>

type_synonym cont = "abi7_grid \<Rightarrow> completion \<times> abi7_grid"

definition call :: "cont option \<Rightarrow> cont" where
  "call fdone g = (case fdone of None \<Rightarrow> (Return JUndefined, g) | Some k \<Rightarrow> k g)"

datatype schedule = Immediately | After nat | Never

definition animation :: "abi7_grid \<Rightarrow> bool \<Rightarrow> schedule" where
  "animation g v =
     (if animation_enable (config g) then
        (if v then Immediately else After (animation_duration (config g) + 50))
      else Never)"

fun run_scheduled :: "schedule \<Rightarrow> cont \<Rightarrow> cont" where
  "run_scheduled Never k g = (Return JUndefined, g)"
| "run_scheduled Immediately k g = k g"
| "run_scheduled (After ms) k g = k g"

section \<open>Position solver: findNextPos\<close>

text \<open>Reading an array element: \<open>undefined\<close> out of range and at a hole.\<close>

definition lookup :: "'a option list \<Rightarrow> nat \<Rightarrow> 'a option" where
  "lookup xs i = (if i < length xs then xs ! i else None)"

definition js_nth :: "'a list \<Rightarrow> nat \<Rightarrow> 'a option" where
  "js_nth xs i = (if i < length xs then Some (xs ! i) else None)"

record next_pos =
  np_left :: rat
  np_top :: int
  np_column :: nat

text \<open>\<open>arr.find(a => a.left === store.left)\<close>: reading \<open>left\<close> of \<open>undefined\<close> throws; on
  an empty \<open>arr\<close> the test is never evaluated.\<close>

fun findNextPos_find :: "layout_entry option list \<Rightarrow> layout_entry option \<Rightarrow> exn + layout_entry option" where
  "findNextPos_find [] store = Inr None"
| "findNextPos_find (a # arr) store =
     (case (a, store) of
        (Some a', Some s) \<Rightarrow> if left a' = left s then Inr (Some a') else findNextPos_find arr store
      | _ \<Rightarrow> Inl TypeError)"

text \<open>The backward scan \<open>for (i = index - 1; i >= 0; i--)\<close>; the third argument is \<open>i + 1\<close>.\<close>

fun findNextPos_scan ::
  "layout_entry option list \<Rightarrow> nat \<Rightarrow> nat \<Rightarrow> layout_entry option list \<Rightarrow> exn + layout_entry option list" where
  "findNextPos_scan its cc 0 arr = Inr arr"
| "findNextPos_scan its cc (Suc i) arr =
     (case findNextPos_find arr (lookup its i) of
        Inl e \<Rightarrow> Inl e
      | Inr found \<Rightarrow>
          (let arr' = (if found = None then arr @ [lookup its i] else arr)
           in if length arr' \<ge> cc then Inr arr' else findNextPos_scan its cc i arr'))"

text \<open>\<open>arr.sort((a, b) => b.bottom - a.bottom)\<close> is a stable sort by descending
  \<open>bottom\<close>; \<open>arr.pop()\<close> takes the last element. \<open>Array.prototype.sort\<close> moves
  \<open>undefined\<close> to the end, so popping then yields \<open>undefined\<close>, as it does on an empty
  array, and reading \<open>arr.left\<close> throws.\<close>

definition findNextPos_pop :: "layout_entry option list \<Rightarrow> exn + layout_entry" where
  "findNextPos_pop arr =
     (if arr = [] \<or> None \<in> set arr then Inl TypeError
      else Inr (last (sort_key (\<lambda>a. - bottom a) (map the arr))))"

definition findNextPos :: "abi7_grid \<Rightarrow> exn + next_pos" where
  "findNextPos g =
     (let cfg = config g; idx = cursor_pos g in
      if idx < column_count g then
        Inr \<lparr> np_left = of_nat idx * of_int (space_cols cfg + item_width g) + grid_left g,
              np_top = (padding_top cfg - space_rows cfg) + space_rows cfg,
              np_column = idx \<rparr>
      else if column_count g > 1 then
        (case findNextPos_scan (storage_items g) (column_count g) idx [] of
           Inl e \<Rightarrow> Inl e
         | Inr arr \<Rightarrow>
            (case findNextPos_pop arr of
               Inl e \<Rightarrow> Inl e
             | Inr a \<Rightarrow>
                 Inr \<lparr> np_left = left a, np_top = bottom a + space_rows cfg, np_column = column a \<rparr>))
      else if idx > 0 then
        (case lookup (storage_items g) (idx - 1) of
           None \<Rightarrow> Inl TypeError
         | Some tmp \<Rightarrow>
             Inr \<lparr> np_left = left tmp, np_top = bottom tmp + space_rows cfg, np_column = 0 \<rparr>)
      else Inr \<lparr> np_left = 0, np_top = 0 + space_rows cfg, np_column = 0 \<rparr>)"

section \<open>Item views\<close>

definition lookup_int :: "'a option list \<Rightarrow> int \<Rightarrow> 'a option" where
  "lookup_int xs i = (if 0 \<le> i then lookup xs (nat i) else None)"

definition setPosition :: "abi7_grid \<Rightarrow> nat \<Rightarrow> rat option \<Rightarrow> int option \<Rightarrow> abi7_grid" where
  "setPosition g vi px py =
     (let v = items g ! vi;
          x' = (case px of Some a \<Rightarrow> a | None \<Rightarrow> item_x v);
          y' = (case py of Some b \<Rightarrow> b | None \<Rightarrow> item_y v)
      in if item_x v \<noteq> x' \<or> item_y v \<noteq> y'
         then g\<lparr>items := (items g)[vi := v\<lparr>item_x := x', item_y := y'\<rparr>]\<rparr>
         else g)"

definition reset :: "abi7_grid_item \<Rightarrow> abi7_grid_item" where
  "reset v = v\<lparr>item_x := 0, item_y := 0, item_column := 0, valHeight := 0, valWidth := 0\<rparr>"

text \<open>\<open>getItemByIndex\<close>: the first view bound to the index.\<close>

definition getItemByIndex :: "abi7_grid \<Rightarrow> int \<Rightarrow> nat option" where
  "getItemByIndex g v = List.find (\<lambda>vi. index (items g ! vi) = v) [0..<length (items g)]"

section \<open>Incremental layout: recalcItems\<close>

record recalc_options =
  itemsUpdate :: bool
  itemsToSkip :: "int list"
  opt_animation :: "bool option"

datatype loop_exit = Completed | Returned | Raised exn

text \<open>The loop of \<open>recalcItems\<close>. It leaves by running out of entries, by the early
  \<open>return\<close> on an undefined entry, or by an exception of \<open>findNextPos\<close>. The option
  \<open>funcPreCalc\<close> (used by drag sorting to style a helper element) only writes styles.\<close>

function recalcItems_loop :: "abi7_grid \<Rightarrow> recalc_options \<Rightarrow> nat \<Rightarrow> loop_exit \<times> abi7_grid" where
  "recalcItems_loop g cfg i =
     (if i < length (storage_items g) then
        (let g1 = g\<lparr>cursor_pos := i\<rparr> in
         case findNextPos g1 of
           Inl e \<Rightarrow> (Raised e, g1)
         | Inr nxt \<Rightarrow>
            (case lookup (storage_items g1) i of
               None \<Rightarrow> (Returned, g1)
             | Some obj \<Rightarrow>
                recalcItems_loop
                  (let g2 = g1\<lparr>storage_items := (storage_items g1)
                              [i := Some (obj\<lparr> left := np_left nxt, top' := np_top nxt,
                                               bottom := np_top nxt + height obj,
                                               column := np_column nxt \<rparr>)]\<rparr>
                   in if itemsUpdate cfg \<and> int i \<notin> set (itemsToSkip cfg) then
                        (case getItemByIndex g2 (int i) of
                           None \<Rightarrow> g2
                         | Some vi \<Rightarrow> setPosition g2 vi (Some (np_left nxt)) (Some (np_top nxt)))
                      else g2)
                  cfg (Suc i)))
      else (Completed, g))"
  by pat_completeness auto
termination
  by (relation "measure (\<lambda>(g, cfg, i). length (storage_items g) - i)")
     (auto simp: setPosition_def Let_def split: option.splits)

text \<open>\<open>recalcItems(pos, options, fdone)\<close>. A negative \<open>pos\<close> makes the first iteration
  read \<open>storage.items[pos]\<close>, which is undefined, after \<open>findNextPos\<close> took its first-row
  branch: the early return (the model leaves \<open>cursor_pos\<close>, a natural number, as it was).
  \<open>updateHeight\<close> only writes styles.\<close>

definition recalcItems :: "abi7_grid \<Rightarrow> int \<Rightarrow> recalc_options \<Rightarrow> cont option \<Rightarrow> completion \<times> abi7_grid" where
  "recalcItems g pos options fdone =
     (if \<not> stateIsNormal g then (Return JUndefined, g)
      else
        (let anim = (case opt_animation options of
                       Some a \<Rightarrow> a
                     | None \<Rightarrow> animation_enable (config g));
             func_done = (\<lambda>g'. call fdone (setBuildState g' False));
             g1 = setBuildState g True
         in if pos < 0 then (Return JUndefined, g1)
            else
              (case recalcItems_loop g1 options (nat pos) of
                 (Raised e, g2) \<Rightarrow> (Throw e, g2)
               | (Returned, g2) \<Rightarrow> (Return JUndefined, g2)
               | (Completed, g2) \<Rightarrow>
                   if anim then run_scheduled (animation g2 False) func_done g2
                   else func_done g2)))"

text \<open>\<open>setSize(width, height)\<close> of a view; \<open>None\<close> is a \<open>null\<close> argument.\<close>

definition setSize :: "abi7_grid \<Rightarrow> nat \<Rightarrow> int option \<Rightarrow> int option \<Rightarrow> completion \<times> abi7_grid" where
  "setSize g vi w h =
     (let g1 = (case w of
                  Some w' \<Rightarrow>
                    if w' \<noteq> valWidth (items g ! vi)
                    then g\<lparr>items := (items g)[vi := (items g ! vi)\<lparr>valWidth := w'\<rparr>]\<rparr>
                    else g
                | None \<Rightarrow> g)
      in case h of
           None \<Rightarrow> (Return JUndefined, g1)
         | Some h' \<Rightarrow>
             if h' \<noteq> valHeight (items g1 ! vi) then
               (let g2 = g1\<lparr>items := (items g1)[vi := (items g1 ! vi)\<lparr>valHeight := h'\<rparr>]\<rparr>
                in if stateIsNormal g2 then
                     (let idx = index (items g2 ! vi);
                          g3 = (case lookup_int (storage_items g2) idx of
                                  Some obj \<Rightarrow>
                                    g2\<lparr>storage_items := (storage_items g2)
                                         [nat idx := Some (obj\<lparr>height := h', bottom := top' obj + h'\<rparr>)]\<rparr>
                                | None \<Rightarrow> g2)
                      in recalcItems g3 (idx + 1)
                           \<lparr>itemsUpdate = True, itemsToSkip = [], opt_animation = Some False\<rparr> None)
                   else (Return JUndefined, g2))
             else (Return JUndefined, g1))"

section \<open>Full layout: recalcStorageItems\<close>

text \<open>The two hints of a record, \<open>height\<close> and \<open>ratio\<close> in the source: a number greater
  than zero, or \<open>false\<close>. Reading a property of \<open>undefined\<close> or \<open>null\<close> throws; any other
  value without the property gives \<open>false\<close>.\<close>

fun hints :: "jsval option \<Rightarrow> exn + (int option \<times> rat option)" where
  "hints None = Inl TypeError"
| "hints (Some JUndefined) = Inl TypeError"
| "hints (Some JNull) = Inl TypeError"
| "hints (Some (JObj r)) =
     Inr ((case abi7height r of Some h \<Rightarrow> if h > 0 then Some h else None | None \<Rightarrow> None),
          (case abi7aspectRatio r of Some q \<Rightarrow> if q > 0 then Some q else None | None \<Rightarrow> None))"
| "hints (Some v) = Inr (None, None)"

text \<open>The height of an entry: the fixed item height if it is truthy, else by the record's
  ratio, else the record's height, else the height resolver \<open>funcItemCalc\<close>. With none of
  them the source leaves \<open>obj.height\<close> undefined and stores \<open>bottom = NaN\<close>; integers have
  no such value, and the result is \<open>None\<close>.\<close>

definition resolveHeight :: "abi7_grid \<Rightarrow> next_pos \<Rightarrow> jsval \<Rightarrow> int option \<Rightarrow> rat option \<Rightarrow> int option" where
  "resolveHeight g obj dat h ratio =
     (case (case item_height g of Some ih \<Rightarrow> if ih \<noteq> 0 then Some ih else None | None \<Rightarrow> None) of
        Some ih \<Rightarrow> Some ih
      | None \<Rightarrow>
         (case ratio of
            Some q \<Rightarrow> Some (js_round (of_int (item_width g) / q))
          | None \<Rightarrow>
             (case h of
                Some h' \<Rightarrow> Some h'
              | None \<Rightarrow>
                 (case funcItemCalc (config g) of
                    Some f \<Rightarrow>
                      Some (f \<lparr> geo_x = np_left obj, geo_y = np_top obj,
                                geo_column = np_column obj, geo_width = item_width g \<rparr> dat)
                  | None \<Rightarrow> None))))"

text \<open>The loop of \<open>recalcStorageItems\<close>. \<open>Throw HeightUndefined\<close> marks the point where
  the source does not throw but goes on with \<open>NaN\<close> (see \<open>resolveHeight\<close>).\<close>

function recalcStorageItems_loop :: "abi7_grid \<Rightarrow> nat \<Rightarrow> nat \<Rightarrow> completion \<times> abi7_grid" where
  "recalcStorageItems_loop g i n =
     (if i < n then
        (let g1 = g\<lparr>cursor_pos := i\<rparr>; dat = js_nth (cache g1) i in
         case findNextPos g1 of
           Inl e \<Rightarrow> (Throw e, g1)
         | Inr obj \<Rightarrow>
            (case hints dat of
               Inl e \<Rightarrow> (Throw e, g1)
             | Inr (h, ratio) \<Rightarrow>
                (case resolveHeight g1 obj (the dat) h ratio of
                   None \<Rightarrow> (Throw HeightUndefined, g1)
                 | Some h' \<Rightarrow>
                     recalcStorageItems_loop
                       (g1\<lparr>storage_items := storage_items g1 @
                             [Some \<lparr> left = np_left obj, top' = np_top obj, height = h',
                                     bottom = np_top obj + h', column = np_column obj \<rparr>]\<rparr>)
                       (Suc i) n)))
      else (Return JUndefined, g))"
  by pat_completeness auto
termination
  by (relation "measure (\<lambda>(g, i, n). n - i)") auto

text \<open>\<open>recalcStorageItems(count, fdone)\<close>; \<open>None\<close> is a \<open>null\<close> count.\<close>

definition recalcStorageItems :: "abi7_grid \<Rightarrow> nat option \<Rightarrow> cont option \<Rightarrow> completion \<times> abi7_grid" where
  "recalcStorageItems g count fdone =
     (let n = (case count of
                 Some c \<Rightarrow> if c \<noteq> 0 then c else length (cache g)
               | None \<Rightarrow> length (cache g))
      in case recalcStorageItems_loop (g\<lparr>storage_items := []\<rparr>) 0 n of
           (Throw e, g1) \<Rightarrow> (Throw e, g1)
         | (Return v, g1) \<Rightarrow> call fdone g1)"

section \<open>refresh and updateItemsPosition\<close>

text \<open>The first pass of the completion of \<open>refresh\<close> over the views: size and vertical
  position from the entry of the view's index. \<open>min_screen\<close> is the least index among the
  views on screen (\<open>None\<close> for \<open>Infinity\<close>); where it equals the position of a view, the
  source reads \<open>obj.top\<close> even if the view has no entry.\<close>

fun refresh_resize :: "abi7_grid \<Rightarrow> int option \<Rightarrow> nat list \<Rightarrow> completion \<times> abi7_grid" where
  "refresh_resize g min_screen [] = (Return JUndefined, g)"
| "refresh_resize g min_screen (i # rest) =
     (case lookup_int (storage_items g) (index (items g ! i)) of
        Some obj \<Rightarrow>
          (case setSize g i (Some (item_width g)) (Some (height obj)) of
             (Throw e, g1) \<Rightarrow> (Throw e, g1)
           | (Return v, g1) \<Rightarrow>
               refresh_resize (setPosition g1 i None (Some (top' obj))) min_screen rest)
      | None \<Rightarrow>
          if min_screen = Some (int i) then (Throw TypeError, g)
          else refresh_resize g min_screen rest)"

text \<open>The second pass: the full position.\<close>

fun refresh_move :: "abi7_grid \<Rightarrow> nat list \<Rightarrow> abi7_grid" where
  "refresh_move g [] = g"
| "refresh_move g (i # rest) =
     (case lookup_int (storage_items g) (index (items g ! i)) of
        Some obj \<Rightarrow> refresh_move (setPosition g i (Some (left obj)) (Some (top' obj))) rest
      | None \<Rightarrow> refresh_move g rest)"

definition min_index :: "abi7_grid \<Rightarrow> nat list \<Rightarrow> int option" where
  "min_index g vs =
     (case map (\<lambda>vi. index (items g ! vi)) vs of
        [] \<Rightarrow> None
      | a # as \<Rightarrow> Some (fold min as a))"

text \<open>\<open>refresh\<close>, up to the return of the state machine to normal. The completion then
  enters \<open>checkItems\<close>, the windowing pass over the rectangles of the DOM, which is not
  part of this development and which calls the caller's \<open>fdone\<close>.\<close>

definition refresh :: "abi7_grid \<Rightarrow> completion \<times> abi7_grid" where
  "refresh g =
     (if \<not> stateIsNormal g then (Return JUndefined, g)
      else
        (let g1 = setBuildState g True;
             g2 = initSizingParams g1;
             min_screen = min_index g2 (screen_all g2)
         in recalcStorageItems g2 (Some (length (storage_items g2)))
              (Some (\<lambda>g3.
                 case refresh_resize g3 min_screen [0..<length (items g3)] of
                   (Throw e, g4) \<Rightarrow> (Throw e, g4)
                 | (Return v, g4) \<Rightarrow>
                     (let g5 = refresh_move g4 [0..<length (items g4)]
                      in run_scheduled (animation g5 False)
                           (\<lambda>g6. (Return JUndefined, setBuildState g6 False)) g5)))))"

fun updateItemsPosition_move :: "abi7_grid \<Rightarrow> nat list \<Rightarrow> abi7_grid" where
  "updateItemsPosition_move g [] = g"
| "updateItemsPosition_move g (i # rest) =
     (case lookup_int (storage_items g) (index (items g ! i)) of
        Some dat \<Rightarrow> updateItemsPosition_move (setPosition g i (Some (left dat)) (Some (top' dat))) rest
      | None \<Rightarrow> updateItemsPosition_move g rest)"

definition updateItemsPosition :: "abi7_grid \<Rightarrow> nat list \<Rightarrow> cont option \<Rightarrow> completion \<times> abi7_grid" where
  "updateItemsPosition g vs fdone =
     (if \<not> stateIsNormal g then (Return JUndefined, g)
      else
        (let g1 = setBuildState g True;
             g2 = updateItemsPosition_move g1 vs
         in run_scheduled (animation g2 False)
              (\<lambda>g3. call fdone (setBuildState g3 False)) g2))"

section \<open>Removing an item\<close>



section \<open>Loading: loadData\<close>

text \<open>\<open>slice(a, b)\<close>; a negative bound counts from the end.\<close>

definition js_slice :: "'a list \<Rightarrow> int \<Rightarrow> int \<Rightarrow> 'a list" where
  "js_slice xs a b =
     (let n = int (length xs);
          s = (if a < 0 then max (n + a) 0 else min a n);
          e = (if b < 0 then max (n + b) 0 else min b n)
      in take (nat (e - s)) (drop (nat s) xs))"

text \<open>\<open>arr[i] = v\<close>: beyond the end the array grows, leaving holes.\<close>

definition js_set :: "'a option list \<Rightarrow> nat \<Rightarrow> 'a \<Rightarrow> 'a option list" where
  "js_set xs i v =
     (if i < length xs then xs[i := Some v]
      else xs @ replicate (i - length xs) None @ [Some v])"

record load_options =
  setX :: bool
  setY :: bool
  opt_reset :: bool

text \<open>The arguments of \<open>loadData\<close> after its first lines: \<open>None\<close> is \<open>false\<close> or \<open>null\<close>.\<close>

definition load_start :: "int option \<Rightarrow> nat" where
  "load_start start = nat (max 0 (case start of None \<Rightarrow> 0 | Some s \<Rightarrow> s))"

definition load_count :: "abi7_grid \<Rightarrow> int option \<Rightarrow> int" where
  "load_count g count =
     min (case count of None \<Rightarrow> itemsCount g | Some c \<Rightarrow> if c = 0 then itemsCount g else c)
         (int (length (buffer g)))"

text \<open>The height of a loaded item: the fixed item height if it is truthy, else by the
  record's ratio, else the record's height, else the measured \<open>el.clientHeight\<close>. The
  hints are read only when there is no fixed height.\<close>

definition loadData_height :: "abi7_grid \<Rightarrow> jsval \<Rightarrow> exn + int" where
  "loadData_height g new_data =
     (case (case item_height g of Some ih \<Rightarrow> if ih \<noteq> 0 then Some ih else None | None \<Rightarrow> None) of
        Some ih \<Rightarrow> Inr ih
      | None \<Rightarrow>
         (case hints (Some new_data) of
            Inl e \<Rightarrow> Inl e
          | Inr (h, ratio) \<Rightarrow>
             (case ratio of
                Some q \<Rightarrow> Inr (js_round (of_int (item_width g) / q))
              | None \<Rightarrow>
                 (case h of
                    Some h' \<Rightarrow> Inr h'
                  | None \<Rightarrow> Inr (clientHeight g new_data)))))"

text \<open>The loop of \<open>dataFunc\<close>: view \<open>buffer[i]\<close> is bound to the index \<open>cursor_pos\<close>. The
  content binder \<open>funcItemLoad\<close> fills the view's body, which is not part of the state; the
  write-only field \<open>ratio\<close> of a new entry is left out.\<close>

function loadData_loop ::
  "abi7_grid \<Rightarrow> load_options \<Rightarrow> jsval list \<Rightarrow> nat \<Rightarrow> nat \<Rightarrow> completion \<times> abi7_grid" where
  "loadData_loop g cfg dat i n =
     (if i < n then
        (let cp = cursor_pos g;
             cached = lookup (storage_items g) cp
         in case (case cached of
                    Some obj \<Rightarrow> Inr \<lparr>np_left = left obj, np_top = top' obj, np_column = column obj\<rparr>
                  | None \<Rightarrow> findNextPos g) of
              Inl e \<Rightarrow> (Throw e, g)
            | Inr new_pos \<Rightarrow>
               (let vi = buffer g ! i;
                    new_data = dat ! i;
                    g1 = (if opt_reset cfg then g\<lparr>items := (items g)[vi := reset (items g ! vi)]\<rparr> else g);
                    g2 = g1\<lparr>items := (items g1)[vi := (items g1 ! vi)
                            \<lparr>loadIndex := i, index := int cp, item_column := np_column new_pos\<rparr>]\<rparr>;
                    g3 = setPosition g2 vi (if setX cfg then Some (np_left new_pos) else None)
                                           (if setY cfg then Some (np_top new_pos) else None)
                in case setSize g3 vi (Some (item_width g3)) None of
                     (Throw e, g4) \<Rightarrow> (Throw e, g4)
                   | (Return v, g4) \<Rightarrow>
                      if \<not> funcItemLoad (config g4) then (Throw FuncItemLoadUndefined, g4)
                      else
                        (case loadData_height g4 new_data of
                           Inl e \<Rightarrow> (Throw e, g4)
                         | Inr itemHeight \<Rightarrow>
                            (case setSize g4 vi None (Some itemHeight) of
                               (Throw e, g5) \<Rightarrow> (Throw e, g5)
                             | (Return v', g5) \<Rightarrow>
                                 loadData_loop
                                   ((if cached = None then
                                       g5\<lparr>storage_items := js_set (storage_items g5) cp
                                            \<lparr> left = np_left new_pos, top' = np_top new_pos,
                                              height = itemHeight,
                                              bottom = np_top new_pos + itemHeight,
                                              column = np_column new_pos \<rparr>\<rparr>
                                     else g5)\<lparr>cursor_pos := Suc cp\<rparr>)
                                   cfg dat (Suc i) n))))
      else (Return JUndefined, g))"
  by pat_completeness auto
termination
  by (relation "measure (\<lambda>(g, cfg, dat, i, n). n - i)") auto

text \<open>\<open>dataFunc(data)\<close>, the inner function of \<open>loadData\<close>, with the \<open>start\<close> and \<open>count\<close> it
  closes over.\<close>

definition dataFunc ::
  "abi7_grid \<Rightarrow> load_options \<Rightarrow> nat \<Rightarrow> int \<Rightarrow> jsval list \<Rightarrow> cont option \<Rightarrow> completion \<times> abi7_grid" where
  "dataFunc g cfg start count dat fdone =
     (let g1 = emit onDataLoadEnd (DataLoadEnd dat) g;
          count' = min count (min (int (length dat)) (int (length (buffer g1))))
      in case loadData_loop g1 cfg dat 0 (nat count') of
           (Throw e, g2) \<Rightarrow> (Throw e, g2)
         | (Return v, g2) \<Rightarrow>
            (let g3 = (if count' > 0 then g2\<lparr>cursor_begin := start, cursor_end := cursor_pos g2\<rparr>
                       else g2);
                 g4 = g3\<lparr> bof := (cursor_begin g3 = 0 \<or> start = 0),
                          eof := (eof_data g3 \<and> int (cursor_end g3) \<ge> int (length (cache g3)) - 1),
                          buffer := [] \<rparr>
             in call fdone (setBuildState g4 False)))"

text \<open>\<open>loadData(start, count, options, fdone)\<close>. The call of the data source is recorded
  in the log as \<open>FetchCall\<close>; a thenable that never resolves leaves the grid as it is.\<close>

definition loadData ::
  "abi7_grid \<Rightarrow> int option \<Rightarrow> int option \<Rightarrow> load_options \<Rightarrow> cont option \<Rightarrow> completion \<times> abi7_grid" where
  "loadData g start count cfg fdone =
     (let g1 = setBuildState g True;
          start' = load_start start;
          count' = load_count g1 count;
          g2 = g1\<lparr>cursor_pos := start'\<rparr>;
          g3 = emit onDataLoadStart DataLoadStart g2
      in if int start' + count' \<le> int (length (cache g3)) \<or> eof_data g3 then
           dataFunc g3 cfg start' count' (js_slice (cache g3) (int start') (int start' + count')) fdone
         else
           (case funcLoadData (config g3) of
              None \<Rightarrow> (Throw TypeError, g3)
            | Some f \<Rightarrow>
               (let res = f (length (cache g3)) (dataBlockSize g3);
                    g4 = g3\<lparr>notifications := notifications g3 @
                              [FetchCall (length (cache g3)) (dataBlockSize g3)]\<rparr>;
                    func = (\<lambda>dat.
                      (let g5 = g4\<lparr>eof_data := (int (length dat) < dataBlockSize g4)\<rparr>;
                           g6 = g5\<lparr> heap := (heap g5)(next_ref g5 := cache g5 @ dat),
                                    storage_cache := next_ref g5,
                                    next_ref := Suc (next_ref g5) \<rparr>
                       in dataFunc g6 cfg start' count'
                            (js_slice (cache g6) (int start') (int start' + count')) fdone))
                in case res of
                     FetchArray dat \<Rightarrow> func dat
                   | FetchPromise (Some dat) \<Rightarrow> func dat
                   | FetchPromise None \<Rightarrow> (Return JUndefined, g4)
                   | FetchOther \<Rightarrow> (Throw UnexpectedDataFormat, g4))))"

section \<open>The public operations data and itemInsert\<close>

text \<open>\<open>initProps\<close>, for a grid whose element had no children at construction. The fields
  that only the scroll, resize and drag handlers read are not part of the state.\<close>

definition initProps :: "abi7_grid \<Rightarrow> abi7_grid" where
  "initProps g =
     g\<lparr> gridState := ABI7_GRID_STATE_BUILD,
        heap := (heap g)(next_ref g := []),
        storage_cache := next_ref g,
        next_ref := Suc (next_ref g),
        storage_items := [],
        ready := False, inScroll := False,
        cursor_pos := 0, bof := True, eof := False, eof_data := False,
        cursor_begin := 0, cursor_end := 0 \<rparr>"

text \<open>\<open>setData(data)\<close>: the cache becomes the caller's array itself.\<close>

definition setData :: "abi7_grid \<Rightarrow> nat \<Rightarrow> abi7_grid" where
  "setData g a =
     g\<lparr> heap := (heap g)(next_ref g := []),
        next_ref := Suc (next_ref g),
        storage_items := [],
        storage_cache := a,
        eof_data := True \<rparr>"

text \<open>A completion callback of the caller: its call is recorded in the log.\<close>

definition user_fdone :: "bool \<Rightarrow> cont" where
  "user_fdone given g =
     (Return JUndefined, if given then g\<lparr>notifications := notifications g @ [Fdone]\<rparr> else g)"

definition initLoadData :: "abi7_grid \<Rightarrow> cont option \<Rightarrow> completion \<times> abi7_grid" where
  "initLoadData g fdone =
     (let g1 = g\<lparr>items := map reset (items g)\<rparr>;
          g2 = g1\<lparr>buffer := [0..<length (items g1)]\<rparr>
      in loadData g2 None None \<lparr>setX = True, setY = True, opt_reset = True\<rparr>
           (Some (\<lambda>g3.
              (let g4 = emit onReady Ready (state (g3\<lparr>ready := True\<rparr>) ABI7_GRID_STATE_NORMAL)
               in case call fdone g4 of
                    (Throw e, g5) \<Rightarrow> (Throw e, g5)
                  | (Return v, g5) \<Rightarrow>
                      (Return JUndefined, g5\<lparr>itemsCount := int (length (items g5))\<rparr>)))))"

text \<open>\<open>data(data, fdone)\<close>. In the innermost callback the source tests \<open>onDataLoadEnd\<close> and
  calls \<open>onDataLoadStart\<close>.\<close>

definition data :: "abi7_grid \<Rightarrow> jsval \<Rightarrow> bool \<Rightarrow> completion \<times> abi7_grid" where
  "data g v fdone =
     (if \<not> stateIsNormal g then (Return JUndefined, g)
      else
        (case v of
           JArr a \<Rightarrow>
             (let g1 = emit onDataLoadStart DataLoadStart g;
                  g2 = setData (initProps g1) a
              in recalcStorageItems g2 None
                   (Some (\<lambda>g3.
                      initLoadData g3
                        (Some (\<lambda>g4.
                           if events (config g4) onDataLoadEnd then
                             (if events (config g4) onDataLoadStart
                              then user_fdone fdone (g4\<lparr>notifications := notifications g4 @ [DataLoadStart]\<rparr>)
                              else (Throw TypeError, g4))
                           else user_fdone fdone g4)))))
         | JUndefined \<Rightarrow> (Return (JArr (storage_cache g)), g)
         | _ \<Rightarrow> (Throw UnexpectedDataFormat, g)))"

text \<open>\<open>itemInsert(data, fdone)\<close>. \<open>self.buffer = self.items\<close> makes the buffer the array of
  views itself, which the sort reorders in place.\<close>

definition itemInsert :: "abi7_grid \<Rightarrow> jsval \<Rightarrow> bool \<Rightarrow> completion \<times> abi7_grid" where
  "itemInsert g v fdone =
     (if \<not> stateIsNormal g then (Return JUndefined, g)
      else if typeof v \<noteq> ''object'' then (Throw DataParameterMustBeObject, g)
      else
        (let g1 = g\<lparr>heap := (heap g)(storage_cache g := v # cache g)\<rparr>;
             g2 = g1\<lparr>storage_items := []\<rparr>;
             g3 = g2\<lparr>items := sort_key (\<lambda>w. - index w) (items g2)\<rparr>;
             g4 = g3\<lparr>buffer := [0..<length (items g3)]\<rparr>
         in loadData g4 None None \<lparr>setX = False, setY = True, opt_reset = False\<rparr>
              (Some (\<lambda>g5.
                 updateItemsPosition g5 [0..<length (items g5)]
                   (Some (\<lambda>g6. user_fdone fdone (emit onItemInsert (ItemInsert v) g6)))))))"

section \<open>The specification's notions\<close>

text \<open>
  The candidates of the position solver in the words of the specification: going backward
  from the entry before the index, the most recent entry of each distinct column position
  (\<open>left\<close>), the first \<open>column_count\<close> of them. \<open>firsts seen es\<close> keeps the entries of
  \<open>es\<close> whose \<open>left\<close> has not been seen before.
\<close>

fun firsts :: "layout_entry list \<Rightarrow> layout_entry list \<Rightarrow> layout_entry list" where
  "firsts seen [] = []"
| "firsts seen (e # es) =
     (if left e \<in> left ` set seen then firsts seen es else e # firsts (seen @ [e]) es)"

definition recent_columns :: "layout_entry option list \<Rightarrow> nat \<Rightarrow> nat \<Rightarrow> layout_entry list" where
  "recent_columns its cc idx = take cc (firsts [] (rev (map the (take idx its))))"

text \<open>The candidate with the smallest \<open>bottom\<close>: among equals the one met last in the
  backward scan, respectively the one met first.\<close>

definition shortest_last :: "layout_entry list \<Rightarrow> layout_entry" where
  "shortest_last cols = last (filter (\<lambda>a. bottom a = min_list (map bottom cols)) cols)"

definition shortest_first :: "layout_entry list \<Rightarrow> layout_entry" where
  "shortest_first cols = hd (filter (\<lambda>a. bottom a = min_list (map bottom cols)) cols)"

text \<open>The left offset of a column, and the position solver on a list of entries without
  holes.\<close>

definition leftOf :: "abi7_grid \<Rightarrow> nat \<Rightarrow> rat" where
  "leftOf g c = of_nat c * of_int (space_cols (config g) + item_width g) + grid_left g"







text \<open>What a layout pass reads.\<close>

definition layout_inputs ::
  "abi7_grid \<Rightarrow> abi7_config \<times> nat \<times> int \<times> rat \<times> int option \<times> jsval list" where
  "layout_inputs g = (config g, column_count g, item_width g, grid_left g, item_height g, cache g)"

section \<open>Example grids\<close>

text \<open>A grid that is ready, visible and in the normal state, with nothing loaded.\<close>

definition example_grid :: "abi7_config \<Rightarrow> int \<Rightarrow> abi7_grid" where
  "example_grid cfg w =
     \<lparr> config = cfg, clientWidth = w, clientHeight = (\<lambda>d. 0),
       gridState = ABI7_GRID_STATE_NORMAL, ready = True, visible = True, inScroll = False,
       screen_all = [], heap = (\<lambda>r. []), next_ref = 1, storage_cache = 0, storage_items = [],
       items = [], buffer = [], cursor_pos = 0, cursor_begin = 0, cursor_end = 0,
       bof = True, eof = False, eof_data = False,
       grid_left = 0, column_count = 1, item_width = 0, grid_width = 0, calc_width = 0,
       item_aspectRatio = None, item_height = None, itemsCount = 0, dataBlockSize = 0,
       notifications = [] \<rparr>"

text \<open>Two columns whose last entries end at the same height; the third item is next.\<close>

definition tie_grid :: abi7_grid where
  "tie_grid = (example_grid defaults 500)
     \<lparr> column_count := 2, item_width := 245, grid_left := 5 / 2,
       storage_items :=
         [Some \<lparr> left = 5 / 2, top' = 0, height = 100, bottom = 100, column = 0 \<rparr>,
          Some \<lparr> left = 505 / 2, top' = 0, height = 100, bottom = 100, column = 1 \<rparr>],
       cursor_pos := 2 \<rparr>"

text \<open>Three records with height hints on a two-column grid, and three records whose
  aspect ratio rounds to height zero on a grid without row spacing.\<close>

definition three_records :: "jsval list" where
  "three_records =
     [JObj \<lparr>abi7height = Some 100, abi7aspectRatio = None, payload = 0\<rparr>,
      JObj \<lparr>abi7height = Some 50, abi7aspectRatio = None, payload = 1\<rparr>,
      JObj \<lparr>abi7height = Some 70, abi7aspectRatio = None, payload = 2\<rparr>]"

definition loaded_grid :: abi7_grid where
  "loaded_grid = (example_grid defaults 500)
     \<lparr> column_count := 2, item_width := 245, grid_left := 5 / 2,
       heap := (\<lambda>r. [])(0 := three_records), eof_data := True \<rparr>"



text \<open>A view bound to an index, and the three-record grid laid out, with three bound views
  and every handler registered.\<close>

definition view :: "int \<Rightarrow> abi7_grid_item" where
  "view i = \<lparr> index = i, loadIndex = 0, item_x = 0, item_y = 0, item_column = 0,
               valWidth = 245, valHeight = 0 \<rparr>"

definition bound_grid :: abi7_grid where
  "bound_grid = loaded_grid
     \<lparr> config := defaults\<lparr>events := (\<lambda>e. True)\<rparr>,
       storage_items :=
         [Some \<lparr>left = 5 / 2, top' = 0, height = 100, bottom = 100, column = 0\<rparr>,
          Some \<lparr>left = 505 / 2, top' = 0, height = 50, bottom = 50, column = 1\<rparr>,
          Some \<lparr>left = 505 / 2, top' = 55, height = 70, bottom = 125, column = 1\<rparr>],
       items := [view 0, view 1, view 2] \<rparr>"



text \<open>The laid-out grid with animations disabled, and one with a hole in its entry array.\<close>

definition still_grid :: abi7_grid where
  "still_grid = bound_grid\<lparr>config := (config bound_grid)\<lparr>animation_enable := False\<rparr>\<rparr>"

definition sparse_grid :: abi7_grid where
  "sparse_grid = bound_grid\<lparr>storage_items :=
     [Some \<lparr>left = 5 / 2, top' = 0, height = 100, bottom = 100, column = 0\<rparr>,
      None,
      Some \<lparr>left = 505 / 2, top' = 55, height = 70, bottom = 125, column = 1\<rparr>]\<rparr>"

section \<open>Properties\<close>

declare recalcStorageItems_loop.simps [simp del]
declare recalcItems_loop.simps [simp del]
declare initSizingParams_cols.simps [simp del]
declare initSizingParams_width.simps [simp del]
declare loadData_loop.simps [simp del]

subsection \<open>The position solver\<close>

lemma find_present:
  "findNextPos_find (map Some A) (Some e) =
     Inr (if left e \<in> left ` set A then Some (hd (filter (\<lambda>a. left a = left e) A)) else None)"
  by (induction A) auto

lemma scan_firsts:
  assumes "\<forall>j<i. lookup its j \<noteq> None" and "length A < cc"
  shows "findNextPos_scan its cc i (map Some A) =
           Inr (map Some (take cc (A @ firsts A (rev (map the (take i its))))))"
  using assms
proof (induction i arbitrary: A)
  case 0
  then show ?case by simp
next
  case (Suc i)
  from Suc.prems obtain e where e: "lookup its i = Some e" by auto
  have len: "i < length its" using e by (auto simp: lookup_def split: if_splits)
  have nth: "its ! i = Some e" using e len by (simp add: lookup_def)
  have tk: "rev (map the (take (Suc i) its)) = e # rev (map the (take i its))"
    using len nth by (simp add: take_Suc_conv_app_nth)
  have pre: "\<forall>j<i. lookup its j \<noteq> None" using Suc.prems by auto
  show ?case
  proof (cases "left e \<in> left ` set A")
    case True
    then show ?thesis
      using Suc.IH[OF pre Suc.prems(2)] Suc.prems(2) e tk
      by (simp add: find_present)
  next
    case False
    show ?thesis
    proof (cases "Suc (length A) \<ge> cc")
      case True
      then have "cc - length A = Suc 0" using Suc.prems(2) by simp
      then show ?thesis using False e tk True
        by (simp add: find_present)
    next
      case False2: False
      then have l: "length (A @ [e]) < cc" by simp
      show ?thesis using Suc.IH[OF pre l] False False2 e tk
        by (simp add: find_present)
    qed
  qed
qed

lemma sorted_le_last: "sorted (xs::int list) \<Longrightarrow> x \<in> set xs \<Longrightarrow> x \<le> last xs"
  by (induction xs) auto

lemma last_filter_self: "xs \<noteq> [] \<Longrightarrow> P (last xs) \<Longrightarrow> last (filter P xs) = last xs"
  by (induction xs rule: rev_induct) auto

lemma pop_shortest_last:
  assumes "A \<noteq> []"
  shows "findNextPos_pop (map Some A) = Inr (shortest_last A)"
proof -
  let ?f = "\<lambda>a. - bottom a"
  let ?S = "sort_key ?f A"
  have ne: "?S \<noteq> []" using assms by (metis length_0_conv length_sort)
  have lin: "last ?S \<in> set A" using ne last_in_set by (metis set_sort)
  have srt: "sorted (map ?f ?S)" by (rule sorted_sort_key)
  have mx: "\<forall>a\<in>set A. ?f a \<le> ?f (last ?S)"
  proof
    fix a assume "a \<in> set A"
    then have "?f a \<in> set (map ?f ?S)" by simp
    moreover have "last (map ?f ?S) = ?f (last ?S)" using ne by (simp add: last_map)
    ultimately show "?f a \<le> ?f (last ?S)" using srt sorted_le_last by metis
  qed
  have mn: "min_list (map bottom A) = bottom (last ?S)"
  proof -
    have "min_list (map bottom A) = Min (set (map bottom A))"
      using assms by (simp add: min_list_Min)
    also have "\<dots> = bottom (last ?S)"
      using lin mx by (intro Min_eqI) auto
    finally show ?thesis .
  qed
  have "last ?S = last (filter (\<lambda>y. ?f y = ?f (last ?S)) ?S)"
    using ne by (simp add: last_filter_self)
  also have "\<dots> = last (filter (\<lambda>y. ?f y = ?f (last ?S)) A)"
    by (simp only: sort_key_stable)
  also have "\<dots> = shortest_last A"
    by (simp add: shortest_last_def mn)
  finally show ?thesis using assms by (simp add: findNextPos_pop_def comp_def)
qed



lemma firsts_nonempty: "xs \<noteq> [] \<Longrightarrow> left (hd xs) \<notin> left ` set seen \<Longrightarrow> firsts seen xs \<noteq> []"
  by (cases xs) auto



subsection \<open>The layout invariant\<close>








lemma layout_inputs_fields:
  assumes "layout_inputs g' = layout_inputs g"
  shows "config g' = config g" "column_count g' = column_count g" "item_width g' = item_width g"
    "grid_left g' = grid_left g" "item_height g' = item_height g" "cache g' = cache g"
  using assms by (simp_all add: layout_inputs_def)

lemma leftOf_inputs: "layout_inputs g' = layout_inputs g \<Longrightarrow> leftOf g' = leftOf g"
  by (auto simp: layout_inputs_def leftOf_def fun_eq_iff)













subsection \<open>The geometry scenario\<close>

text \<open>
  Claim C5, amended. For a container 1000 px wide with no horizontal padding, item widths
  from 150 to 250, column spacing 10 and a column cap of 4, \<open>initSizingParams\<close> yields 4
  columns of width 242. The cap is part of the configuration: with the default cap 3 the
  result is 3 columns of width 250, and with no cap (up to 16) it is 6 columns of width 158.
\<close>

theorem geometry_scenario_cap4:
  assumes "clientWidth g = 1000"
    and "padding_left (config g) = 0" and "padding_right (config g) = 0"
    and "items_minWidth (config g) = 150" and "items_maxWidth (config g) = 250"
    and "space_cols (config g) = 10" and "maxColumns (config g) = 4"
  shows "column_count (initSizingParams g) = 4 \<and> item_width (initSizingParams g) = 242"
proof -
  have "initSizingParams_cols (config g) 1000 4 250 0 = (4, 242, 1002)"
    using assms by (simp add: initSizingParams_cols.simps initSizingParams_width.simps)
  then show ?thesis using assms
    by (simp add: initSizingParams_def Let_def emit_def)
qed

theorem geometry_scenario_cap4_witness:
  "column_count (initSizingParams (example_grid (defaults\<lparr>space_cols := 10, maxColumns := 4\<rparr>) 1000)) = 4 \<and>
   item_width (initSizingParams (example_grid (defaults\<lparr>space_cols := 10, maxColumns := 4\<rparr>) 1000)) = 242"
  using geometry_scenario_cap4[of "example_grid (defaults\<lparr>space_cols := 10, maxColumns := 4\<rparr>) 1000"]
  by (simp add: example_grid_def defaults_def)

text \<open>The same scenario under the default column cap, and under no cap.\<close>

theorem geometry_scenario_default_cap_counterexample:
  "column_count (initSizingParams (example_grid (defaults\<lparr>space_cols := 10\<rparr>) 1000)) = 3 \<and>
   item_width (initSizingParams (example_grid (defaults\<lparr>space_cols := 10\<rparr>) 1000)) = 250 \<and>
   column_count (initSizingParams (example_grid (defaults\<lparr>space_cols := 10, maxColumns := 0\<rparr>) 1000)) = 6 \<and>
   item_width (initSizingParams (example_grid (defaults\<lparr>space_cols := 10, maxColumns := 0\<rparr>) 1000)) = 158"
  by (simp add: initSizingParams_def Let_def emit_def example_grid_def defaults_def
        initSizingParams_cols.simps initSizingParams_width.simps)

subsection \<open>The greedy choice of the position solver\<close>

lemma findNextPos_columns:
  assumes "1 < column_count g" and "column_count g \<le> cursor_pos g"
    and "\<forall>j<cursor_pos g. lookup (storage_items g) j \<noteq> None"
  shows "findNextPos g =
    Inr \<lparr> np_left = left (shortest_last (recent_columns (storage_items g) (column_count g) (cursor_pos g))),
          np_top = bottom (shortest_last (recent_columns (storage_items g) (column_count g) (cursor_pos g)))
                     + space_rows (config g),
          np_column = column (shortest_last (recent_columns (storage_items g) (column_count g) (cursor_pos g))) \<rparr>"
proof -
  have sc: "findNextPos_scan (storage_items g) (column_count g) (cursor_pos g) (map Some []) =
      Inr (map Some (take (column_count g) ([] @ firsts [] (rev (map the (take (cursor_pos g) (storage_items g)))))))"
    using assms(1) by (intro scan_firsts[OF assms(3)]) simp
  have "cursor_pos g - 1 < cursor_pos g" using assms(1,2) by simp
  then have "lookup (storage_items g) (cursor_pos g - 1) \<noteq> None" using assms(3) by blast
  then have "cursor_pos g - 1 < length (storage_items g)" by (simp add: lookup_def split: if_splits)
  then have "take (cursor_pos g) (storage_items g) \<noteq> []" using assms(1,2) by auto
  then have "rev (map the (take (cursor_pos g) (storage_items g))) \<noteq> []" by simp
  then have "firsts [] (rev (map the (take (cursor_pos g) (storage_items g)))) \<noteq> []"
    by (intro firsts_nonempty) auto
  then have ne: "recent_columns (storage_items g) (column_count g) (cursor_pos g) \<noteq> []"
    using assms(1) by (simp add: recent_columns_def)
  show ?thesis using assms(1,2) sc pop_shortest_last[OF ne]
    by (simp add: findNextPos_def Let_def recent_columns_def)
qed

text \<open>
  Claim C2, amended. For an index at or beyond \<open>column_count > 1\<close>, with every earlier
  entry resolved, \<open>findNextPos\<close> places the item in the column of the candidate with the
  smallest \<open>bottom\<close>, at that \<open>bottom\<close> plus the row spacing, where the candidates are the
  most recent entries of the \<open>column_count\<close> most recently used distinct column positions.
  Among candidates of equal \<open>bottom\<close> it takes the one met last in the backward scan (the
  stable descending sort followed by \<open>pop\<close>), not the one met first.
\<close>

theorem findNextPos_shortest_column:
  assumes "1 < column_count g" and "column_count g \<le> cursor_pos g"
    and "\<forall>j<cursor_pos g. lookup (storage_items g) j \<noteq> None"
  shows "findNextPos g =
    Inr \<lparr> np_left = left (shortest_last (recent_columns (storage_items g) (column_count g) (cursor_pos g))),
          np_top = bottom (shortest_last (recent_columns (storage_items g) (column_count g) (cursor_pos g)))
                     + space_rows (config g),
          np_column = column (shortest_last (recent_columns (storage_items g) (column_count g) (cursor_pos g))) \<rparr>"
  using assms by (rule findNextPos_columns)

lemma tie_cols: "recent_columns (storage_items tie_grid) (column_count tie_grid) (cursor_pos tie_grid) =
   [\<lparr> left = 505 / 2, top' = 0, height = 100, bottom = 100, column = 1 \<rparr>,
    \<lparr> left = 5 / 2, top' = 0, height = 100, bottom = 100, column = 0 \<rparr>]"
  by (simp add: recent_columns_def tie_grid_def example_grid_def numeral_2_eq_2)

theorem findNextPos_shortest_column_witness:
  "findNextPos tie_grid = Inr \<lparr> np_left = 5 / 2, np_top = 105, np_column = 0 \<rparr>"
proof -
  have a: "1 < column_count tie_grid" "column_count tie_grid \<le> cursor_pos tie_grid"
    by (simp_all add: tie_grid_def)
  have b: "\<forall>j<cursor_pos tie_grid. lookup (storage_items tie_grid) j \<noteq> None"
    by (simp add: tie_grid_def lookup_def numeral_2_eq_2 less_Suc_eq)
  show ?thesis
    using findNextPos_shortest_column[OF a b]
    by (simp add: tie_cols shortest_last_def) (simp add: tie_grid_def example_grid_def defaults_def)
qed

text \<open>With two columns of equal height the third item goes to column 0, whose entry the
  backward scan meets last; the candidate met first is in column 1.\<close>

theorem findNextPos_tie_first_counterexample:
  "findNextPos tie_grid = Inr \<lparr> np_left = 5 / 2, np_top = 105, np_column = 0 \<rparr> \<and>
   column (shortest_first (recent_columns (storage_items tie_grid) (column_count tie_grid) (cursor_pos tie_grid))) = 1"
  by (simp add: tie_cols shortest_first_def)
     (simp add: findNextPos_def findNextPos_pop_def lookup_def tie_grid_def example_grid_def defaults_def numeral_2_eq_2)

subsection \<open>The invariant of a full layout pass\<close>








subsection \<open>Incremental layout and removal\<close>















subsection \<open>refresh\<close>

lemma stateIsNormal_items [simp]: "stateIsNormal (g\<lparr>items := its\<rparr>) = stateIsNormal g"
  by (simp add: stateIsNormal_def stateIsNormalWith_def)












text \<open>
  Claim C1. With animations disabled \<open>refresh\<close> returns normally and leaves the state machine
  in the build state, since \<open>animation\<close> never runs the completion that resets it; so does
  \<open>updateItemsPosition\<close>. The early return of \<open>recalcItems\<close> on an undefined entry leaves the
  build state too. With animations enabled \<open>refresh\<close> ends in the normal state.
\<close>

theorem refresh_stays_building:
  "stateIsNormal still_grid \<and>
   fst (refresh still_grid) = Return JUndefined \<and>
   gridState (snd (refresh still_grid)) = ABI7_GRID_STATE_BUILD \<and>
   gridState (snd (updateItemsPosition still_grid [0, 1, 2] None)) = ABI7_GRID_STATE_BUILD \<and>
   stateIsNormal sparse_grid \<and>
   fst (recalcItems sparse_grid 1 \<lparr>itemsUpdate = True, itemsToSkip = [], opt_animation = None\<rparr> None)
     = Return JUndefined \<and>
   gridState (snd (recalcItems sparse_grid 1
      \<lparr>itemsUpdate = True, itemsToSkip = [], opt_animation = None\<rparr> None)) = ABI7_GRID_STATE_BUILD \<and>
   gridState (snd (refresh bound_grid)) = ABI7_GRID_STATE_NORMAL"
  by code_simp

subsection \<open>Arguments and states of the public operations\<close>

text \<open>
  Claim C10. Whenever the grid is not in the normal state, or is not ready, or is not
  visible, or is scrolling, \<open>data\<close> returns \<open>undefined\<close> and does nothing else, whatever its
  argument: neither the query nor the load is performed. In particular a query made
  while the grid is building gets \<open>undefined\<close> and not the records.
\<close>

theorem data_not_normal:
  assumes "gridState g \<noteq> ABI7_GRID_STATE_NORMAL \<or> \<not> ready g \<or> \<not> visible g \<or> inScroll g"
  shows "data g v fdone = (Return JUndefined, g)"
  using assms by (auto simp: data_def stateIsNormal_def stateIsNormalWith_def)

theorem data_not_normal_witness:
  "data (setBuildState bound_grid True) JUndefined False =
     (Return JUndefined, setBuildState bound_grid True) \<and>
   data bound_grid JUndefined False = (Return (JArr 0), bound_grid)"
proof -
  have "gridState (setBuildState bound_grid True) \<noteq> ABI7_GRID_STATE_NORMAL"
    by (simp add: setBuildState_def state_def)
  then have a: "data (setBuildState bound_grid True) JUndefined False =
     (Return JUndefined, setBuildState bound_grid True)"
    using data_not_normal[of "setBuildState bound_grid True" JUndefined False] by simp
  have "data bound_grid JUndefined False = (Return (JArr 0), bound_grid)"
    by (simp add: data_def stateIsNormal_def stateIsNormalWith_def bound_grid_def
          loaded_grid_def example_grid_def)
  with a show ?thesis by simp
qed

text \<open>
  Claim C7, amended. In the normal state \<open>itemInsert\<close> with an argument whose \<open>typeof\<close> is
  not \<open>'object'\<close> throws \<open>'Data parameter must be an object'\<close>, and \<open>data\<close> with an argument
  that is neither an array nor \<open>undefined\<close> throws \<open>'Unexpected data format'\<close>; in any other
  state both return \<open>undefined\<close>. In every case the state of the grid (record cache,
  entries, state machine, log) is unchanged.
\<close>

theorem invalid_argument_throws:
  shows "(typeof v \<noteq> ''object'' \<longrightarrow>
            itemInsert g v fdone =
              (if stateIsNormal g then Throw DataParameterMustBeObject else Return JUndefined, g)) \<and>
         (\<not> isArray v \<and> v \<noteq> JUndefined \<longrightarrow>
            data g v fdone =
              (if stateIsNormal g then Throw UnexpectedDataFormat else Return JUndefined, g))"
  by (cases v) (simp_all add: itemInsert_def data_def)

theorem invalid_argument_throws_witness:
  "typeof (JNum 5) \<noteq> ''object'' \<and> \<not> isArray (JNum 5) \<and> JNum 5 \<noteq> JUndefined \<and>
   stateIsNormal bound_grid \<and>
   itemInsert bound_grid (JNum 5) False = (Throw DataParameterMustBeObject, bound_grid) \<and>
   data bound_grid (JNum 5) False = (Throw UnexpectedDataFormat, bound_grid)"
proof -
  have n: "stateIsNormal bound_grid"
    by (simp add: stateIsNormal_def stateIsNormalWith_def bound_grid_def
          loaded_grid_def example_grid_def)
  show ?thesis
    using invalid_argument_throws[of "JNum 5" bound_grid False] n by simp
qed

text \<open>A number passed to \<open>itemInsert\<close> or to \<open>data\<close> in the normal state: the call throws.\<close>

theorem invalid_argument_counterexample:
  "fst (itemInsert bound_grid (JNum 5) False) = Throw DataParameterMustBeObject \<and>
   fst (data bound_grid (JNum 5) False) = Throw UnexpectedDataFormat"
  by (simp add: itemInsert_def data_def stateIsNormal_def stateIsNormalWith_def bound_grid_def
        loaded_grid_def example_grid_def)

end
